theory Spec2Isabelle
  imports Main "HOL-Library.Word"
begin

unbundle bit_operations_syntax

section \<open>Machine model\<close>

text \<open>
  The programs are bare-metal C for the TM4C123GH6PM. \<open>unsigned char\<close> is an 8-bit
  word. C evaluates \<open>&\<close>, \<open>|\<close>, \<open><<\<close>, \<open>>>\<close> and \<open>~\<close> on \<open>unsigned char\<close> operands
  after promotion to the 32-bit \<open>int\<close>; the promoted values are modelled as 32-bit
  words (all operands are non-negative, and \<open>~\<close> is the bitwise complement of the
  two's complement representation), and a store into an \<open>unsigned char\<close> truncates
  with \<open>ucast\<close>. The memory-mapped registers of \<open>tm4c123gh6pm.h\<close> are 32-bit.
\<close>

type_synonym u8 = "8 word"
type_synonym u32 = "32 word"

text \<open>The registers the two shift-register programs touch.\<close>

datatype reg =
    SYSCTL_RCGCGPIO_R
  | GPIO_PORTC_DIR_R | GPIO_PORTC_DEN_R | GPIO_PORTC_DATA_R
  | GPIO_PORTE_DIR_R | GPIO_PORTE_DEN_R | GPIO_PORTE_DATA_R
  | GPIO_PORTF_DIR_R | GPIO_PORTF_DEN_R | GPIO_PORTF_DATA_R

text \<open>
  Registers are \<open>volatile\<close>: every store is observable, in program order. The
  state therefore carries, besides the register file and the global \<open>PP2\<close> of
  \<open>004_LCD/main.c\<close>, the sequence of stores made so far. A busy-wait delay
  changes no memory; it is recorded as an event with its argument.
\<close>

datatype event = Write reg u32 | Delay int

record mcu =
  regs :: "reg \<Rightarrow> u32"
  PP2 :: u8
  trace :: "event list"

text \<open>\<open>R = v;\<close>\<close>

definition reg_write :: "reg \<Rightarrow> u32 \<Rightarrow> mcu \<Rightarrow> mcu" where
  "reg_write r v s = s\<lparr>regs := (regs s)(r := v), trace := trace s @ [Write r v]\<rparr>"

text \<open>\<open>R |= v;\<close> reads the register, ors, and stores the result. A read returns the
  value last stored (the pins are configured as outputs).\<close>

definition reg_or :: "reg \<Rightarrow> u32 \<Rightarrow> mcu \<Rightarrow> mcu" where
  "reg_or r v s = reg_write r (regs s r OR v) s"

text \<open>\<open>delayMs(n)\<close>: two nested empty counting loops.\<close>

definition delayMs :: "int \<Rightarrow> mcu \<Rightarrow> mcu" where
  "delayMs n s = s\<lparr>trace := trace s @ [Delay n]\<rparr>"

text \<open>The state after reset as far as the programs fix it: \<open>PP2 = 0x00\<close>, nothing
  stored yet. The register contents are taken as zero.\<close>

definition reset_mcu :: mcu where
  "reset_mcu = \<lparr>regs = (\<lambda>r. 0), PP2 = 0x00, trace = []\<rparr>"

section \<open>shift\_out1\<close>

text \<open>
  The body of the \<open>for\<close> loop of \<open>shift_out1\<close>, the same in \<open>004_LCD/main.c\<close> and in
  the 7-segment program:
  \<^verbatim>\<open>GPIO_PORTF_DATA_R = 0x00;
  bit = (byte & (1 << j));
  if (bit) GPIO_PORTF_DATA_R |= 0x04; else GPIO_PORTF_DATA_R |= 0x00;
  GPIO_PORTF_DATA_R |= 0x08;\<close>
\<close>

definition shift_bit :: "u8 \<Rightarrow> u8 \<Rightarrow> mcu \<Rightarrow> mcu" where
  "shift_bit byte j s =
     (let s = reg_write GPIO_PORTF_DATA_R 0x00 s;
          bit_state = (ucast ((ucast byte :: u32) AND push_bit (unat j) 1) :: u8);
          s = (if bit_state \<noteq> 0 then reg_or GPIO_PORTF_DATA_R 0x04 s
               else reg_or GPIO_PORTF_DATA_R 0x00 s)
      in reg_or GPIO_PORTF_DATA_R 0x08 s)"

text \<open>\<open>for (j = 0; j < 8; j++)\<close> with \<open>unsigned char j\<close>.\<close>

function shift_loop :: "u8 \<Rightarrow> u8 \<Rightarrow> mcu \<Rightarrow> mcu" where
  "shift_loop byte j s = (if j < 8 then shift_loop byte (j + 1) (shift_bit byte j s) else s)"
  by pat_completeness auto
termination
proof (relation "measure (\<lambda>(byte, j, s). 8 - unat j)")
  show "wf (measure (\<lambda>(byte, j, s). 8 - unat j))" by simp
next
  fix byte j :: u8 and s :: mcu
  assume "j < 8"
  then have "unat j < 8" by (simp add: word_less_nat_alt)
  then have "unat (j + 1) = unat j + 1" by (simp add: unat_word_ariths)
  with \<open>unat j < 8\<close>
  show "((byte, j + 1, shift_bit byte j s), (byte, j, s)) \<in> measure (\<lambda>(byte, j, s). 8 - unat j)"
    by simp
qed

declare shift_loop.simps [simp del]

text \<open>\<open>shift_out1\<close> of \<open>004_LCD/main.c\<close>: latch on PE5.\<close>

definition shift_out1 :: "u8 \<Rightarrow> mcu \<Rightarrow> mcu" where
  "shift_out1 byte s =
     (let s = reg_write GPIO_PORTE_DATA_R 0x00 s;
          s = shift_loop byte 0 s
      in reg_write GPIO_PORTE_DATA_R 0x20 s)"

text \<open>\<open>shift_out1\<close> of the 7-segment program: latch on PC4.\<close>

definition shift_out1_seg :: "u8 \<Rightarrow> mcu \<Rightarrow> mcu" where
  "shift_out1_seg data_byte s =
     (let s = reg_write GPIO_PORTC_DATA_R 0x00 s;
          s = shift_loop data_byte 0 s
      in reg_write GPIO_PORTC_DATA_R 0x10 s)"

text \<open>The 7-segment program: lookup table, period, and one iteration of its
  \<open>while (1)\<close> loop.\<close>

definition a :: "u8 list" where
  "a = [0x60, 0xDA, 0xF2, 0x66, 0xFF]"

definition T :: int where
  "T = 500"

definition seg_loop_body :: "mcu \<Rightarrow> mcu" where
  "seg_loop_body s =
     (let s = shift_out1_seg (a ! 3) s;
          s = shift_out1_seg (a ! 2) s;
          s = shift_out1_seg (a ! 1) s;
          s = shift_out1_seg (a ! 0) s;
          s = shift_out1_seg (a ! 4) s;
          s = delayMs T s;
          s = shift_out1_seg 0 s;
          s = shift_out1_seg 0 s;
          s = shift_out1_seg 0 s;
          s = shift_out1_seg 0 s;
          s = shift_out1_seg 0 s
      in delayMs T s)"

section \<open>The character LCD driver\<close>

text \<open>The bit remapping, written twice in the source (in \<open>LCD_command\<close> and in
  \<open>LCD_putc\<close>) with the same text:
  \<^verbatim>\<open>num = ((num & 0x11) << 3) | ((num & 0x22) << 1) | ((num & 0x44) >> 1) | ((num & 0x88) >> 3);\<close>\<close>

definition remap :: "u8 \<Rightarrow> u8" where
  "remap num = ucast (push_bit 3 ((ucast num :: u32) AND 0x11) OR
                      push_bit 1 ((ucast num :: u32) AND 0x22) OR
                      drop_bit 1 ((ucast num :: u32) AND 0x44) OR
                      drop_bit 3 ((ucast num :: u32) AND 0x88))"

text \<open>The statements on \<open>PP2\<close>. \<open>PP2 = (PP2 & 0xF0) | (x & 0x0F)\<close>, where \<open>x\<close> is
  \<open>command >> 4\<close> or \<open>command\<close>:\<close>

definition load_nibble :: "u8 \<Rightarrow> u8 \<Rightarrow> u8" where
  "load_nibble x p = (p AND 0xF0) OR (x AND 0x0F)"

text \<open>\<open>PP2 &= ~m\<close>, with \<open>m\<close> an \<open>int\<close>: \<open>3 << 7\<close>, \<open>0x20\<close> or \<open>0x40\<close>.\<close>

definition and_not :: "u32 \<Rightarrow> u8 \<Rightarrow> u8" where
  "and_not m p = ucast ((ucast p :: u32) AND NOT m)"

text \<open>\<open>PP2 |= m\<close>, with \<open>m\<close> being \<open>0x20\<close> or \<open>0xA0\<close>.\<close>

definition or_mask :: "u8 \<Rightarrow> u8 \<Rightarrow> u8" where
  "or_mask m p = p OR m"

definition PP2_modify :: "(u8 \<Rightarrow> u8) \<Rightarrow> mcu \<Rightarrow> mcu" where
  "PP2_modify f s = s\<lparr>PP2 := f (PP2 s)\<rparr>"

definition LCD_command :: "u8 \<Rightarrow> mcu \<Rightarrow> mcu" where
  "LCD_command command s =
     (let command = remap command;
          s = PP2_modify (load_nibble (drop_bit 4 command)) s;
          s = PP2_modify (and_not (push_bit 7 3)) s;
          s = PP2_modify (or_mask 0x20) s;
          s = shift_out1 (PP2 s) s;
          s = PP2_modify (and_not 0x20) s;
          s = shift_out1 (PP2 s) s;
          s = PP2_modify (load_nibble command) s;
          s = PP2_modify (and_not (push_bit 7 3)) s;
          s = PP2_modify (or_mask 0x20) s;
          s = shift_out1 (PP2 s) s;
          s = PP2_modify (and_not 0x20) s
      in shift_out1 (PP2 s) s)"

definition LCD_putc :: "u8 \<Rightarrow> mcu \<Rightarrow> mcu" where
  "LCD_putc ascii s =
     (let ascii = remap ascii;
          s = PP2_modify (load_nibble (drop_bit 4 ascii)) s;
          s = PP2_modify (or_mask 0xA0) s;
          s = PP2_modify (and_not 0x40) s;
          s = shift_out1 (PP2 s) s;
          s = PP2_modify (and_not 0x20) s;
          s = shift_out1 (PP2 s) s;
          s = PP2_modify (load_nibble ascii) s;
          s = PP2_modify (or_mask 0xA0) s;
          s = PP2_modify (and_not 0x40) s;
          s = shift_out1 (PP2 s) s;
          s = PP2_modify (and_not 0x20) s
      in shift_out1 (PP2 s) s)"

text \<open>\<open>while (*lcd_string) LCD_putc(*lcd_string++);\<close> The argument is the bytes in
  memory from the pointer on; a C string holds its terminating zero, so the empty
  list is never read.\<close>

fun LCD_puts :: "u8 list \<Rightarrow> mcu \<Rightarrow> mcu" where
  "LCD_puts [] s = s"
| "LCD_puts (c # cs) s = (if c = 0 then s else LCD_puts cs (LCD_putc c s))"

definition LCD_init :: "mcu \<Rightarrow> mcu" where
  "LCD_init s =
     (let s = delayMs 20 s;
          s = LCD_command 0x30 s;
          s = delayMs 5 s;
          s = LCD_command 0x30 s;
          s = delayMs 5 s;
          s = LCD_command 0x30 s;
          s = delayMs 5 s;
          s = LCD_command 0x20 s;
          s = delayMs 5 s;
          s = LCD_command 0x28 s;
          s = delayMs 5 s;
          s = LCD_command 0x0C s;
          s = delayMs 5 s;
          s = LCD_command 0x06 s;
          s = delayMs 5 s;
          s = LCD_command 0x01 s
      in delayMs 5 s)"

text \<open>A string literal: its characters and the terminating zero.\<close>

definition cstring :: "string \<Rightarrow> u8 list" where
  "cstring str = map (\<lambda>c. of_nat (of_char c)) str @ [0]"

text \<open>\<open>main\<close> of \<open>004_LCD/main.c\<close> up to its final \<open>while (1);\<close>, which changes
  nothing.\<close>

definition LCD_main :: "mcu \<Rightarrow> mcu" where
  "LCD_main s =
     (let s = reg_or SYSCTL_RCGCGPIO_R 0x30 s;
          s = reg_or GPIO_PORTE_DIR_R 0x20 s;
          s = reg_or GPIO_PORTE_DEN_R 0x20 s;
          s = reg_or GPIO_PORTF_DIR_R 0x0C s;
          s = reg_or GPIO_PORTF_DEN_R 0x0C s;
          s = LCD_init s;
          s = LCD_command 0x80 s;
          s = LCD_puts (cstring ''Welcome'') s;
          s = LCD_command 0xC0 s;
          s = LCD_puts (cstring ''LCD 16x2'') s
      in delayMs 500 s)"

section \<open>Observing the three lines\<close>

text \<open>
  The definitions of this section are not code of the programs: they describe what is
  seen on the wires, so that the properties of the driver can be stated. The lines are
  PF2 (SDATA, bit 2 of \<open>GPIO_PORTF_DATA_R\<close>), PF3 (SCLK, bit 3) and the latch: PE5
  (bit 5 of \<open>GPIO_PORTE_DATA_R\<close>) in the LCD program, PC4 (bit 4 of \<open>GPIO_PORTC_DATA_R\<close>)
  in the 7-segment program.
\<close>

text \<open>The events a run adds to the trace.\<close>

definition emitted :: "mcu \<Rightarrow> mcu \<Rightarrow> event list" where
  "emitted s s' = drop (length (trace s)) (trace s')"

text \<open>The value of the data/clock port with SDATA at level \<open>d\<close> and SCLK low.\<close>

definition sdata :: "bool \<Rightarrow> u32" where
  "sdata d = (if d then 0x04 else 0x00)"

text \<open>One clock cycle carrying the level \<open>d\<close>: clock (and data) low, data set, clock
  high.\<close>

definition bit_cycle :: "bool \<Rightarrow> event list" where
  "bit_cycle d = [Write GPIO_PORTF_DATA_R 0x00, Write GPIO_PORTF_DATA_R (sdata d),
                  Write GPIO_PORTF_DATA_R (sdata d OR 0x08)]"

text \<open>The eight cycles of a byte, bit 0 first.\<close>

definition bit_cycles :: "u8 \<Rightarrow> event list" where
  "bit_cycles byte = concat (map (\<lambda>k. bit_cycle (bit byte k)) [0..<8])"

text \<open>The stores of one byte transfer: latch low, eight cycles, latch high.\<close>

definition frame :: "u8 \<Rightarrow> event list" where
  "frame byte = Write GPIO_PORTE_DATA_R 0x00 # bit_cycles byte @ [Write GPIO_PORTE_DATA_R 0x20]"

definition frame_seg :: "u8 \<Rightarrow> event list" where
  "frame_seg byte = Write GPIO_PORTC_DATA_R 0x00 # bit_cycles byte @ [Write GPIO_PORTC_DATA_R 0x10]"

text \<open>The bits of a byte in the order of transmission.\<close>

definition bits_of :: "u8 \<Rightarrow> bool list" where
  "bits_of byte = map (bit byte) [0..<8]"

text \<open>
  A monitor on the receiving side, as a 74HC595 sees the lines: it samples SDATA at every
  rising edge of SCLK, and at every rising edge of the latch it records the levels
  sampled since the previous rising edge of the latch. \<open>lr\<close> and \<open>lb\<close> are the register
  and the bit of the latch line; \<open>m_clk\<close> and \<open>m_stk\<close> are the current levels of clock and
  latch.
\<close>

record monitor =
  m_clk :: bool
  m_stk :: bool
  m_bits :: "bool list"
  m_latched :: "bool list list"

definition observe :: "reg \<Rightarrow> nat \<Rightarrow> monitor \<Rightarrow> event \<Rightarrow> monitor" where
  "observe lr lb m e =
     (case e of
        Delay n \<Rightarrow> m
      | Write r v \<Rightarrow>
          if r = GPIO_PORTF_DATA_R then
            m\<lparr>m_clk := bit v 3,
              m_bits := (if \<not> m_clk m \<and> bit v 3 then m_bits m @ [bit v 2] else m_bits m)\<rparr>
          else if r = lr then
            (if \<not> m_stk m \<and> bit v lb
             then m\<lparr>m_stk := True, m_bits := [], m_latched := m_latched m @ [m_bits m]\<rparr>
             else m\<lparr>m_stk := bit v lb\<rparr>)
          else m)"

text \<open>What a sequence of events latches, from the line levels \<open>c\<close> (clock) and \<open>l\<close>
  (latch) and no bit sampled yet: one list of sampled levels per rising latch edge.\<close>

definition latched :: "reg \<Rightarrow> nat \<Rightarrow> bool \<Rightarrow> bool \<Rightarrow> event list \<Rightarrow> bool list list" where
  "latched lr lb c l es =
     m_latched (foldl (observe lr lb) \<lparr>m_clk = c, m_stk = l, m_bits = [], m_latched = []\<rparr> es)"

text \<open>One nibble transfer of the LCD driver: the control bits \<open>ctl\<close> and the nibble with
  EN (bit 5) set, then the same with EN clear.\<close>

definition nibble_frames :: "u8 \<Rightarrow> u8 \<Rightarrow> event list" where
  "nibble_frames ctl n = frame (ctl OR (n AND 0x0F) OR 0x20) @ frame (ctl OR (n AND 0x0F))"

text \<open>The stores of the full command path and of the full data path for the byte \<open>x\<close>,
  from the accumulator value \<open>p\<close>: high nibble of the remapped byte, then low nibble.\<close>

definition command_frames :: "u8 \<Rightarrow> u8 \<Rightarrow> event list" where
  "command_frames p x =
     nibble_frames (p AND 0x50) (drop_bit 4 (remap x)) @ nibble_frames (p AND 0x50) (remap x)"

definition data_frames :: "u8 \<Rightarrow> u8 \<Rightarrow> event list" where
  "data_frames p x =
     nibble_frames ((p AND 0x10) OR 0x80) (drop_bit 4 (remap x)) @
     nibble_frames ((p AND 0x10) OR 0x80) (remap x)"

text \<open>The events before the first \<open>delayMs(n)\<close>.\<close>

definition before_delay :: "int \<Rightarrow> event list \<Rightarrow> event list" where
  "before_delay n es = takeWhile (\<lambda>e. e \<noteq> Delay n) es"

section \<open>The LCD program as a transition system\<close>

text \<open>
  The statements of \<open>004_LCD/main.c\<close> that can change \<open>PP2\<close> or the trace, each as one
  step from any state: the six assignments to \<open>PP2\<close> that occur in \<open>LCD_command\<close> and
  \<open>LCD_putc\<close> (with any nibble source), the call \<open>shift_out1(PP2)\<close> (every call in the
  program passes \<open>PP2\<close>, and \<open>shift_out1\<close> does not assign it), \<open>delayMs\<close>, and the
  configuration stores of \<open>main\<close>. A state is reachable when steps lead to it from a
  state with \<open>PP2 = 0x00\<close>, its initialiser, and nothing stored yet.
\<close>

inductive lcd_step :: "mcu \<Rightarrow> mcu \<Rightarrow> bool" where
  load: "lcd_step s (PP2_modify (load_nibble x) s)"
| and_not_3_shl_7: "lcd_step s (PP2_modify (and_not (push_bit 7 3)) s)"
| or_0x20: "lcd_step s (PP2_modify (or_mask 0x20) s)"
| and_not_0x20: "lcd_step s (PP2_modify (and_not 0x20) s)"
| or_0xA0: "lcd_step s (PP2_modify (or_mask 0xA0) s)"
| and_not_0x40: "lcd_step s (PP2_modify (and_not 0x40) s)"
| shift: "lcd_step s (shift_out1 (PP2 s) s)"
| delay: "lcd_step s (delayMs n s)"
| config: "r \<noteq> GPIO_PORTE_DATA_R \<Longrightarrow> r \<noteq> GPIO_PORTF_DATA_R \<Longrightarrow> lcd_step s (reg_or r v s)"

inductive lcd_reachable :: "mcu \<Rightarrow> bool" where
  start: "PP2 s = 0x00 \<Longrightarrow> trace s = [] \<Longrightarrow> lcd_reachable s"
| step: "lcd_reachable s \<Longrightarrow> lcd_step s s' \<Longrightarrow> lcd_reachable s'"

text \<open>The invariant of the trace: whatever the monitor had latched before, the trace
  adds only whole bytes with bit 6 clear, and leaves no sampled bit unlatched.\<close>

definition rw_clear_trace :: "event list \<Rightarrow> bool" where
  "rw_clear_trace t \<longleftrightarrow>
     (\<forall>m. m_bits m = [] \<longrightarrow>
        (\<exists>bytes. (\<forall>b \<in> set bytes. \<not> bit b 6) \<and>
           m_bits (foldl (observe GPIO_PORTE_DATA_R 5) m t) = [] \<and>
           m_latched (foldl (observe GPIO_PORTE_DATA_R 5) m t) = m_latched m @ map bits_of bytes))"

section \<open>Bit-level facts about the remapping\<close>

lemma u8_eq_bits:
  "(x :: u8) = y \<longleftrightarrow>
     (bit x 0 = bit y 0) \<and> (bit x (Suc 0) = bit y (Suc 0)) \<and> (bit x 2 = bit y 2) \<and>
     (bit x 3 = bit y 3) \<and> (bit x 4 = bit y 4) \<and> (bit x 5 = bit y 5) \<and>
     (bit x 6 = bit y 6) \<and> (bit x 7 = bit y 7)"
proof
  assume bits: "(bit x 0 = bit y 0) \<and> (bit x (Suc 0) = bit y (Suc 0)) \<and> (bit x 2 = bit y 2) \<and>
     (bit x 3 = bit y 3) \<and> (bit x 4 = bit y 4) \<and> (bit x 5 = bit y 5) \<and>
     (bit x 6 = bit y 6) \<and> (bit x 7 = bit y 7)"
  show "x = y"
  proof (rule bit_word_eqI)
    fix n assume "n < LENGTH(8)"
    then have "n \<in> {0, Suc 0, 2, 3, 4, 5, 6, 7}" by auto
    with bits show "bit x n = bit y n" by auto
  qed
qed simp

lemma bit_times2:
  "bit (w * 2 :: 'a::len word) n \<longleftrightarrow> n \<noteq> 0 \<and> n < LENGTH('a) \<and> bit w (n - 1)"
  using bit_double_iff [of w n]
  by (auto simp: mult.commute bit_simps dest: bit_imp_le_length)

lemma remap_bits:
  "bit (remap b) 0 = bit b 3"
  "bit (remap b) (Suc 0) = bit b 2"
  "bit (remap b) 2 = bit b (Suc 0)"
  "bit (remap b) 3 = bit b 0"
  "bit (remap b) 4 = bit b 7"
  "bit (remap b) 5 = bit b 6"
  "bit (remap b) 6 = bit b 5"
  "bit (remap b) 7 = bit b 4"
  by (simp_all add: remap_def bit_simps bit_times2 numeral_2_eq_2 [symmetric])

section \<open>The remapping: spot values and involution\<close>

text \<open>
  Claim C2, as stated, fails at its fourth value: bit 4 of the input moves to bit 7,
  so the remapping sends \<open>0x10\<close> to \<open>0x80\<close>, not to \<open>0x02\<close>.
\<close>

theorem remap_0x10_is_not_0x02: "remap 0x10 \<noteq> 0x02"
  by (simp add: remap_def)

text \<open>
  Claim C2, amended: the bit-remap transform of the source satisfies
  \<open>remap(0x00) = 0x00\<close>, \<open>remap(0xFF) = 0xFF\<close>, \<open>remap(0x01) = 0x08\<close> and
  \<open>remap(0x10) = 0x80\<close>.
\<close>

theorem remap_spot_values:
  "remap 0x00 = 0x00 \<and> remap 0xFF = 0xFF \<and> remap 0x01 = 0x08 \<and> remap 0x10 = 0x80"
  by (simp add: remap_def)

text \<open>
  Claim C8: the bit-remap transform is an involution; for every 8-bit input \<open>b\<close>,
  applying it twice yields \<open>b\<close> again.
\<close>

theorem remap_involution: "remap (remap b) = b"
  by (simp add: u8_eq_bits remap_bits)

section \<open>The shift-out routine on the wires\<close>

lemma bit_state_iff:
  assumes "n < 8"
  shows "((ucast ((ucast (byte :: u8) :: u32) AND 2 ^ n) :: u8) = 0) = (\<not> bit byte n)"
proof -
  have "(ucast ((ucast byte :: u32) AND 2 ^ n) :: u8) = byte AND 2 ^ n"
    using assms by (intro bit_word_eqI) (auto simp add: bit_simps)
  then show ?thesis
    by (simp only: and_exp_eq_0_iff_not_bit)
qed

lemma shift_bit_trace:
  "unat j < 8 \<Longrightarrow> trace (shift_bit byte j s) = trace s @ bit_cycle (bit byte (unat j))"
  by (simp add: shift_bit_def Let_def bit_state_iff reg_or_def reg_write_def bit_cycle_def sdata_def)

lemma shift_bit_regs:
  "unat j < 8 \<Longrightarrow>
   regs (shift_bit byte j s) = (regs s)(GPIO_PORTF_DATA_R := sdata (bit byte (unat j)) OR 0x08)"
  by (simp add: shift_bit_def Let_def bit_state_iff reg_or_def reg_write_def sdata_def)

lemma shift_bit_PP2: "PP2 (shift_bit byte j s) = PP2 s"
  by (simp add: shift_bit_def Let_def reg_or_def reg_write_def)

lemma unat_succ_lt8:
  fixes j :: u8
  assumes "j < 8"
  shows "unat j < 8" and "unat (j + 1) = Suc (unat j)"
proof -
  from assms show "unat j < 8" by (simp add: word_less_nat_alt)
  then show "unat (j + 1) = Suc (unat j)" by (simp add: unat_word_ariths)
qed

lemma shift_loop_trace:
  "unat j \<le> 8 \<Longrightarrow>
   trace (shift_loop byte j s) = trace s @ concat (map (\<lambda>k. bit_cycle (bit byte k)) [unat j..<8])"
proof (induction byte j s rule: shift_loop.induct)
  case (1 byte j s)
  show ?case
  proof (cases "j < 8")
    case True
    note lt = unat_succ_lt8 [OF True]
    have "trace (shift_loop byte j s) = trace (shift_loop byte (j + 1) (shift_bit byte j s))"
      using True by (simp add: shift_loop.simps [of byte j s])
    also have "\<dots> = trace (shift_bit byte j s) @
                     concat (map (\<lambda>k. bit_cycle (bit byte k)) [unat (j + 1)..<8])"
      using "1.IH" [OF True] lt by simp
    also have "\<dots> = trace s @ concat (map (\<lambda>k. bit_cycle (bit byte k)) [unat j..<8])"
      using lt by (simp add: shift_bit_trace upt_conv_Cons)
    finally show ?thesis .
  next
    case False
    then have "\<not> unat j < 8" by (simp add: word_less_nat_alt)
    with "1.prems" have "unat j = 8" by simp
    with False show ?thesis by (simp add: shift_loop.simps [of byte j s])
  qed
qed

lemma shift_loop_PP2: "PP2 (shift_loop byte j s) = PP2 s"
proof (induction byte j s rule: shift_loop.induct)
  case (1 byte j s)
  show ?case
  proof (cases "j < 8")
    case True
    have "PP2 (shift_loop byte j s) = PP2 (shift_loop byte (j + 1) (shift_bit byte j s))"
      using True by (simp add: shift_loop.simps [of byte j s])
    with "1.IH" [OF True] show ?thesis by (simp add: shift_bit_PP2)
  next
    case False
    then show ?thesis by (simp add: shift_loop.simps [of byte j s])
  qed
qed

lemma shift_loop_regs:
  "unat j < 8 \<Longrightarrow>
   regs (shift_loop byte j s) = (regs s)(GPIO_PORTF_DATA_R := sdata (bit byte 7) OR 0x08)"
proof (induction byte j s rule: shift_loop.induct)
  case (1 byte j s)
  from "1.prems" have True: "j < 8" by (simp add: word_less_nat_alt)
  note lt = unat_succ_lt8 [OF True]
  have step: "regs (shift_loop byte j s) = regs (shift_loop byte (j + 1) (shift_bit byte j s))"
    using True by (simp add: shift_loop.simps [of byte j s])
  show ?case
  proof (cases "unat j = 7")
    case True7: True
    then have "\<not> j + 1 < 8" using lt by (simp add: word_less_nat_alt)
    then have "shift_loop byte (j + 1) (shift_bit byte j s) = shift_bit byte j s"
      by (simp add: shift_loop.simps [of byte "j + 1"])
    with step True7 lt show ?thesis by (simp add: shift_bit_regs)
  next
    case False
    with lt have "unat (j + 1) < 8" by simp
    from "1.IH" [OF True this]
    have "regs (shift_loop byte (j + 1) (shift_bit byte j s)) =
            (regs (shift_bit byte j s))(GPIO_PORTF_DATA_R := sdata (bit byte 7) OR 0x08)" .
    also have "\<dots> = (regs s)(GPIO_PORTF_DATA_R := sdata (bit byte 7) OR 0x08)"
      using lt by (simp only: shift_bit_regs fun_upd_upd)
    finally show ?thesis using step by simp
  qed
qed

lemma shift_out1_trace: "trace (shift_out1 byte s) = trace s @ frame byte"
  by (simp add: shift_out1_def Let_def reg_write_def shift_loop_trace frame_def bit_cycles_def)

lemma shift_out1_seg_trace: "trace (shift_out1_seg byte s) = trace s @ frame_seg byte"
  by (simp add: shift_out1_seg_def Let_def reg_write_def shift_loop_trace frame_seg_def bit_cycles_def)

lemma shift_out1_PP2: "PP2 (shift_out1 byte s) = PP2 s"
  by (simp add: shift_out1_def Let_def reg_write_def shift_loop_PP2)

lemma shift_out1_regs:
  "regs (shift_out1 byte s) =
     (regs s)(GPIO_PORTF_DATA_R := sdata (bit byte 7) OR 0x08, GPIO_PORTE_DATA_R := 0x20)"
  by (simp add: shift_out1_def Let_def reg_write_def shift_loop_regs fun_upd_twist)

lemma shift_out1_seg_regs:
  "regs (shift_out1_seg byte s) =
     (regs s)(GPIO_PORTF_DATA_R := sdata (bit byte 7) OR 0x08, GPIO_PORTC_DATA_R := 0x10)"
  by (simp add: shift_out1_seg_def Let_def reg_write_def shift_loop_regs fun_upd_twist)

lemma observe_bit_cycle:
  "lr \<noteq> GPIO_PORTF_DATA_R \<Longrightarrow>
   foldl (observe lr lb) m (bit_cycle d) = m\<lparr>m_clk := True, m_bits := m_bits m @ [d]\<rparr>"
  by (cases d) (simp_all add: bit_cycle_def observe_def sdata_def)


lemma observe_bit_cycles:
  assumes "lr \<noteq> GPIO_PORTF_DATA_R"
  shows "foldl (observe lr lb) m (bit_cycles byte) = m\<lparr>m_clk := True, m_bits := m_bits m @ bits_of byte\<rparr>"
  by (simp add: bit_cycles_def bits_of_def upt_conv_Cons observe_bit_cycle [OF assms])

lemma observe_frame:
  "foldl (observe GPIO_PORTE_DATA_R 5) m (frame byte) =
     m\<lparr>m_clk := True, m_stk := True, m_bits := [], m_latched := m_latched m @ [m_bits m @ bits_of byte]\<rparr>"
  by (simp add: frame_def observe_bit_cycles) (simp add: observe_def)

lemma observe_frame_seg:
  "foldl (observe GPIO_PORTC_DATA_R 4) m (frame_seg byte) =
     m\<lparr>m_clk := True, m_stk := True, m_bits := [], m_latched := m_latched m @ [m_bits m @ bits_of byte]\<rparr>"
  by (simp add: frame_seg_def observe_bit_cycles) (simp add: observe_def)

section \<open>The LCD driver on the wires\<close>

lemma and_not_simps:
  "and_not (push_bit 7 3) p = p AND 0x7F"
  "and_not 0x20 p = p AND 0xDF"
  "and_not 0x40 p = p AND 0xBF"
  by (simp_all add: and_not_def u8_eq_bits bit_simps)


lemma and_not_384: "and_not 384 p = p AND 0x7F"
  using and_not_simps(1) [of p] by simp

lemma command_bytes:
  "or_mask 0x20 (and_not 384 (load_nibble n p)) = (p AND 0x50) OR (n AND 0x0F) OR 0x20"
  "and_not 0x20 ((p AND 0x50) OR (n AND 0x0F) OR 0x20) = (p AND 0x50) OR (n AND 0x0F)"
  by (simp_all add: and_not_simps and_not_384 or_mask_def load_nibble_def u8_eq_bits bit_simps)

lemma data_bytes:
  "and_not 0x40 (or_mask 0xA0 (load_nibble n p)) = ((p AND 0x10) OR 0x80) OR (n AND 0x0F) OR 0x20"
  "and_not 0x20 (((p AND 0x10) OR 0x80) OR (n AND 0x0F) OR 0x20) = ((p AND 0x10) OR 0x80) OR (n AND 0x0F)"
  by (simp_all add: and_not_simps or_mask_def load_nibble_def u8_eq_bits bit_simps)

lemma nibble_masks:
  "(((p :: u8) AND 0x50) OR (n AND 0x0F)) AND 0x50 = p AND 0x50"
  "((((p :: u8) AND 0x10) OR 0x80) OR (n AND 0x0F)) AND 0x10 = p AND 0x10"
  by (simp_all add: u8_eq_bits bit_simps)

lemma LCD_command_trace:
  "trace (LCD_command x s) = trace s @ command_frames (PP2 s) x"
  by (simp add: LCD_command_def Let_def PP2_modify_def shift_out1_trace shift_out1_PP2
      command_frames_def nibble_frames_def command_bytes nibble_masks)

lemma LCD_command_PP2:
  "PP2 (LCD_command x s) = (PP2 s AND 0x50) OR (remap x AND 0x0F)"
  by (simp add: LCD_command_def Let_def PP2_modify_def shift_out1_PP2 command_bytes nibble_masks)

lemma LCD_putc_trace:
  "trace (LCD_putc x s) = trace s @ data_frames (PP2 s) x"
  by (simp add: LCD_putc_def Let_def PP2_modify_def shift_out1_trace shift_out1_PP2
      data_frames_def nibble_frames_def data_bytes nibble_masks)


lemma command_frames_cong:
  "command_frames ((p AND 0x50) OR (n AND 0x0F)) x = command_frames p x"
  by (simp add: command_frames_def nibble_masks)

lemma LCD_init_trace:
  "trace (LCD_init s) = trace s @
     [Delay 20] @ command_frames (PP2 s) 0x30 @ [Delay 5] @ command_frames (PP2 s) 0x30 @ [Delay 5] @
     command_frames (PP2 s) 0x30 @ [Delay 5] @ command_frames (PP2 s) 0x20 @ [Delay 5] @
     command_frames (PP2 s) 0x28 @ [Delay 5] @ command_frames (PP2 s) 0x0C @ [Delay 5] @
     command_frames (PP2 s) 0x06 @ [Delay 5] @ command_frames (PP2 s) 0x01 @ [Delay 5]"
  by (simp add: LCD_init_def Let_def delayMs_def LCD_command_trace LCD_command_PP2 command_frames_cong)

lemma emitted_append: "trace s' = trace s @ es \<Longrightarrow> emitted s s' = es"
  by (simp add: emitted_def)

section \<open>Reachable states of the LCD program\<close>

lemma reachable_LCD_command: "lcd_reachable s \<Longrightarrow> lcd_reachable (LCD_command x s)"
  unfolding LCD_command_def Let_def
  by (rule lcd_reachable.step [rotated], rule lcd_step.intros)+

lemma reachable_LCD_putc: "lcd_reachable s \<Longrightarrow> lcd_reachable (LCD_putc x s)"
  unfolding LCD_putc_def Let_def
  by (rule lcd_reachable.step [rotated], rule lcd_step.intros)+

lemma reachable_LCD_puts: "lcd_reachable s \<Longrightarrow> lcd_reachable (LCD_puts cs s)"
  by (induction cs arbitrary: s) (simp_all add: reachable_LCD_putc)

lemma reachable_delayMs: "lcd_reachable s \<Longrightarrow> lcd_reachable (delayMs n s)"
  by (rule lcd_reachable.step [OF _ lcd_step.delay])

lemma reachable_LCD_init: "lcd_reachable s \<Longrightarrow> lcd_reachable (LCD_init s)"
  unfolding LCD_init_def Let_def
  by (intro reachable_delayMs reachable_LCD_command)

lemma reachable_LCD_main: "lcd_reachable s \<Longrightarrow> lcd_reachable (LCD_main s)"
  unfolding LCD_main_def Let_def
  by (intro reachable_delayMs reachable_LCD_command reachable_LCD_puts reachable_LCD_init
      lcd_reachable.step [OF _ lcd_step.config]) simp_all

lemma reachable_reset: "lcd_reachable reset_mcu"
  by (rule lcd_reachable.start) (simp_all add: reset_mcu_def)


lemma rw_clear_nil: "rw_clear_trace []"
proof -
  have "\<forall>b \<in> set ([] :: u8 list). \<not> bit b 6" by simp
  then show ?thesis unfolding rw_clear_trace_def by (intro allI impI exI [of _ "[]"]) simp
qed

lemma rw_clear_frame:
  assumes "rw_clear_trace t" and "\<not> bit b 6"
  shows "rw_clear_trace (t @ frame b)"
  unfolding rw_clear_trace_def
proof (intro allI impI)
  fix m :: monitor
  assume "m_bits m = []"
  with assms(1) obtain bytes where bytes:
    "\<forall>b \<in> set bytes. \<not> bit b 6"
    "m_bits (foldl (observe GPIO_PORTE_DATA_R 5) m t) = []"
    "m_latched (foldl (observe GPIO_PORTE_DATA_R 5) m t) = m_latched m @ map bits_of bytes"
    unfolding rw_clear_trace_def by blast
  have "(\<forall>b \<in> set (bytes @ [b]). \<not> bit b 6) \<and>
        m_bits (foldl (observe GPIO_PORTE_DATA_R 5) m (t @ frame b)) = [] \<and>
        m_latched (foldl (observe GPIO_PORTE_DATA_R 5) m (t @ frame b)) =
          m_latched m @ map bits_of (bytes @ [b])"
    using bytes assms(2) by (simp add: observe_frame)
  then show "\<exists>bytes. (\<forall>b \<in> set bytes. \<not> bit b 6) \<and>
        m_bits (foldl (observe GPIO_PORTE_DATA_R 5) m (t @ frame b)) = [] \<and>
        m_latched (foldl (observe GPIO_PORTE_DATA_R 5) m (t @ frame b)) =
          m_latched m @ map bits_of bytes"
    by (rule exI)
qed

lemma rw_clear_ignored:
  assumes "rw_clear_trace t" and "\<And>m. observe GPIO_PORTE_DATA_R 5 m e = m"
  shows "rw_clear_trace (t @ [e])"
  using assms unfolding rw_clear_trace_def by simp

lemma bit6_preserved:
  "bit (load_nibble x p) 6 = bit p 6"
  "bit (and_not 384 p) 6 = bit p 6"
  "bit (or_mask 0x20 p) 6 = bit p 6"
  "bit (and_not 0x20 p) 6 = bit p 6"
  "bit (or_mask 0xA0 p) 6 = bit p 6"
  "bit (and_not 0x40 p) 6 = False"
  by (simp_all add: and_not_simps and_not_384 or_mask_def load_nibble_def bit_simps)

lemma lcd_step_invariant:
  assumes "lcd_step s s'" and "\<not> bit (PP2 s) 6" and "rw_clear_trace (trace s)"
  shows "\<not> bit (PP2 s') 6 \<and> rw_clear_trace (trace s')"
  using assms
proof cases
  case (shift)
  with assms(2,3) show ?thesis
    by (simp add: shift_out1_PP2 shift_out1_trace rw_clear_frame)
next
  case (delay n)
  with assms(2,3) show ?thesis
    by (simp add: delayMs_def rw_clear_ignored observe_def)
next
  case (config r v)
  with assms(2,3) show ?thesis
    by (simp add: reg_or_def reg_write_def rw_clear_ignored observe_def)
qed (simp_all add: PP2_modify_def bit6_preserved)

lemma lcd_reachable_invariant:
  "lcd_reachable s \<Longrightarrow> \<not> bit (PP2 s) 6 \<and> rw_clear_trace (trace s)"
proof (induction rule: lcd_reachable.induct)
  case (start s)
  then show ?case by (simp add: rw_clear_nil)
next
  case (step s s')
  then show ?case using lcd_step_invariant [of s s'] by blast
qed

section \<open>Properties of the shift-out routine\<close>

lemma emitted_shift_out1: "emitted s (shift_out1 byte s) = frame byte"
  by (simp add: emitted_def shift_out1_trace)

lemma emitted_shift_out1_seg: "emitted s (shift_out1_seg byte s) = frame_seg byte"
  by (simp add: emitted_def shift_out1_seg_trace)

lemma latched_frame: "latched GPIO_PORTE_DATA_R 5 c l (frame byte) = [bits_of byte]"
  by (simp add: latched_def observe_frame)

lemma latched_frame_seg: "latched GPIO_PORTC_DATA_R 4 c l (frame_seg byte) = [bits_of byte]"
  by (simp add: latched_def observe_frame_seg)

lemma bit_cycles_expand:
  "bit_cycles byte =
     concat (map (\<lambda>j. [Write GPIO_PORTF_DATA_R 0x00,
                        Write GPIO_PORTF_DATA_R (sdata (bit byte j)),
                        Write GPIO_PORTF_DATA_R (sdata (bit byte j) OR 0x08)]) [0..<8])"
  by (simp add: bit_cycles_def bit_cycle_def)

lemma bits_of_1: "bits_of 1 = [True, False, False, False, False, False, False, False]"
  by (simp add: bits_of_def upt_conv_Cons)

text \<open>
  Claim C1: for every 8-bit byte, \<open>shift_out1\<close> (in either program) transmits the byte
  LSB-first. Between the two latch stores it performs exactly 8 clock cycles; on cycle
  \<open>j\<close> (\<open>j = 0..7\<close>) it first stores SCLK low, then sets SDATA to bit \<open>j\<close> of the byte, then
  stores SCLK high. The levels sampled at the rising clock edges are bits 0 to 7 of the
  byte in this order; for the byte \<open>0b00000001\<close> the level at the first rising edge is
  high and at the remaining seven it is low.
\<close>

theorem shift_out1_lsb_first:
  "emitted s (shift_out1 byte s) =
     Write GPIO_PORTE_DATA_R 0x00 #
     concat (map (\<lambda>j. [Write GPIO_PORTF_DATA_R 0x00,
                        Write GPIO_PORTF_DATA_R (sdata (bit byte j)),
                        Write GPIO_PORTF_DATA_R (sdata (bit byte j) OR 0x08)]) [0..<8]) @
     [Write GPIO_PORTE_DATA_R 0x20] \<and>
   emitted s (shift_out1_seg byte s) =
     Write GPIO_PORTC_DATA_R 0x00 #
     concat (map (\<lambda>j. [Write GPIO_PORTF_DATA_R 0x00,
                        Write GPIO_PORTF_DATA_R (sdata (bit byte j)),
                        Write GPIO_PORTF_DATA_R (sdata (bit byte j) OR 0x08)]) [0..<8]) @
     [Write GPIO_PORTC_DATA_R 0x10] \<and>
   latched GPIO_PORTE_DATA_R 5 c l (emitted s (shift_out1 byte s)) = [map (bit byte) [0..<8]] \<and>
   latched GPIO_PORTC_DATA_R 4 c l (emitted s (shift_out1_seg byte s)) = [map (bit byte) [0..<8]] \<and>
   latched GPIO_PORTE_DATA_R 5 c l (emitted s (shift_out1 0x01 s)) =
     [[True, False, False, False, False, False, False, False]] \<and>
   latched GPIO_PORTC_DATA_R 4 c l (emitted s (shift_out1_seg 0x01 s)) =
     [[True, False, False, False, False, False, False, False]]"
proof -
  have e1: "emitted s (shift_out1 byte s) =
     Write GPIO_PORTE_DATA_R 0x00 #
     concat (map (\<lambda>j. [Write GPIO_PORTF_DATA_R 0x00,
                        Write GPIO_PORTF_DATA_R (sdata (bit byte j)),
                        Write GPIO_PORTF_DATA_R (sdata (bit byte j) OR 0x08)]) [0..<8]) @
     [Write GPIO_PORTE_DATA_R 0x20]"
    by (simp only: emitted_shift_out1 frame_def bit_cycles_expand)
  have e2: "emitted s (shift_out1_seg byte s) =
     Write GPIO_PORTC_DATA_R 0x00 #
     concat (map (\<lambda>j. [Write GPIO_PORTF_DATA_R 0x00,
                        Write GPIO_PORTF_DATA_R (sdata (bit byte j)),
                        Write GPIO_PORTF_DATA_R (sdata (bit byte j) OR 0x08)]) [0..<8]) @
     [Write GPIO_PORTC_DATA_R 0x10]"
    by (simp only: emitted_shift_out1_seg frame_seg_def bit_cycles_expand)
  have l1: "latched GPIO_PORTE_DATA_R 5 c l (emitted s (shift_out1 byte s)) =
              [map (bit byte) [0..<8]]"
    by (simp only: emitted_shift_out1 latched_frame bits_of_def)
  have l2: "latched GPIO_PORTC_DATA_R 4 c l (emitted s (shift_out1_seg byte s)) =
              [map (bit byte) [0..<8]]"
    by (simp only: emitted_shift_out1_seg latched_frame_seg bits_of_def)
  have l3: "latched GPIO_PORTE_DATA_R 5 c l (emitted s (shift_out1 0x01 s)) =
              [[True, False, False, False, False, False, False, False]]"
    by (simp only: emitted_shift_out1 latched_frame bits_of_1)
  have l4: "latched GPIO_PORTC_DATA_R 4 c l (emitted s (shift_out1_seg 0x01 s)) =
              [[True, False, False, False, False, False, False, False]]"
    by (simp only: emitted_shift_out1_seg latched_frame_seg bits_of_1)
  show ?thesis
    by (intro conjI e1 e2 l1 l2 l3 l4)
qed

lemma latched_before_latch:
  assumes "lr \<noteq> GPIO_PORTF_DATA_R"
  shows "latched lr lb c l (Write lr 0x00 # bit_cycles byte) = []"
  by (simp add: latched_def observe_bit_cycles [OF assms]) (simp add: observe_def assms)

lemma butlast_frame: "butlast (frame byte) = Write GPIO_PORTE_DATA_R 0x00 # bit_cycles byte"
  by (simp add: frame_def butlast_append)

lemma butlast_frame_seg: "butlast (frame_seg byte) = Write GPIO_PORTC_DATA_R 0x00 # bit_cycles byte"
  by (simp add: frame_seg_def butlast_append)

lemma length_bits_of: "length (bits_of byte) = 8"
  by (simp add: bits_of_def)

text \<open>
  Claim C7: in every execution of \<open>shift_out1\<close> (in either program) the latch line is
  stored low before any clock pulse, no store before the last one raises the latch
  (nothing is latched by the events up to the last), and the last store raises the
  latch after exactly 8 rising clock edges: a partially shifted byte is never latched.
\<close>

theorem shift_out1_latch_discipline:
  "emitted s (shift_out1 byte s) =
     Write GPIO_PORTE_DATA_R 0x00 # bit_cycles byte @ [Write GPIO_PORTE_DATA_R 0x20] \<and>
   latched GPIO_PORTE_DATA_R 5 c l (butlast (emitted s (shift_out1 byte s))) = [] \<and>
   map length (latched GPIO_PORTE_DATA_R 5 c l (emitted s (shift_out1 byte s))) = [8] \<and>
   emitted s (shift_out1_seg byte s) =
     Write GPIO_PORTC_DATA_R 0x00 # bit_cycles byte @ [Write GPIO_PORTC_DATA_R 0x10] \<and>
   latched GPIO_PORTC_DATA_R 4 c l (butlast (emitted s (shift_out1_seg byte s))) = [] \<and>
   map length (latched GPIO_PORTC_DATA_R 4 c l (emitted s (shift_out1_seg byte s))) = [8]"
  by (simp add: emitted_shift_out1 emitted_shift_out1_seg butlast_frame butlast_frame_seg
      latched_before_latch latched_frame latched_frame_seg length_bits_of)
    (simp add: frame_def frame_seg_def)

lemma seg_loop_body_trace:
  "trace (seg_loop_body s) = trace s @
     frame_seg 0x66 @ frame_seg 0xF2 @ frame_seg 0xDA @ frame_seg 0x60 @ frame_seg 0xFF @
     [Delay 500] @
     frame_seg 0 @ frame_seg 0 @ frame_seg 0 @ frame_seg 0 @ frame_seg 0 @ [Delay 500]"
  by (simp add: seg_loop_body_def Let_def shift_out1_seg_trace delayMs_def a_def T_def)

lemma observe_Delay: "observe lr lb m (Delay n) = m"
  by (simp add: observe_def)

lemma latched_seg_loop_body:
  "latched GPIO_PORTC_DATA_R 4 c l (emitted s (seg_loop_body s)) =
     map bits_of [0x66, 0xF2, 0xDA, 0x60, 0xFF, 0, 0, 0, 0, 0]"
  by (simp add: emitted_append [OF seg_loop_body_trace] latched_def observe_frame_seg observe_Delay)

lemma latched_command_frames:
  "latched GPIO_PORTE_DATA_R 5 c l (command_frames p x) =
     map bits_of
       [(p AND 0x50) OR (drop_bit 4 (remap x) AND 0x0F) OR 0x20,
        (p AND 0x50) OR (drop_bit 4 (remap x) AND 0x0F),
        (p AND 0x50) OR (remap x AND 0x0F) OR 0x20,
        (p AND 0x50) OR (remap x AND 0x0F)]"
  by (simp add: latched_def command_frames_def nibble_frames_def observe_frame)

lemma latched_data_frames:
  "latched GPIO_PORTE_DATA_R 5 c l (data_frames p x) =
     map bits_of
       [((p AND 0x10) OR 0x80) OR (drop_bit 4 (remap x) AND 0x0F) OR 0x20,
        ((p AND 0x10) OR 0x80) OR (drop_bit 4 (remap x) AND 0x0F),
        ((p AND 0x10) OR 0x80) OR (remap x AND 0x0F) OR 0x20,
        ((p AND 0x10) OR 0x80) OR (remap x AND 0x0F)]"
  by (simp add: latched_def data_frames_def nibble_frames_def observe_frame)

text \<open>
  Claim C3, as stated, fails: \<open>shift_out1\<close> drives the latch line itself. Already the
  single call \<open>shift_out1(0x00)\<close> from reset, with no caller framing it, produces a
  rising latch edge.
\<close>

theorem shift_out1_latch_is_not_callers:
  "latched GPIO_PORTE_DATA_R 5 False False (trace (shift_out1 0x00 reset_mcu)) \<noteq> []"
  by (simp add: shift_out1_trace reset_mcu_def latched_frame)

text \<open>
  Claim C3, amended: \<open>shift_out1\<close> performs the latch itself. For every byte, a call
  stores the latch low, then toggles only DATA and CLOCK for the 8 bits, then stores
  the latch high, so that every call latches exactly the byte it has shifted. The
  callers store nothing but through \<open>shift_out1\<close> (and delays): one iteration of the
  7-segment loop latches after each of its ten bytes, and \<open>LCD_command\<close> and \<open>LCD_putc\<close>
  latch after each of their four \<open>shift_out1\<close> calls, twice per nibble.
\<close>

theorem shift_out1_latches_itself:
  "emitted s (shift_out1 byte s) =
     Write GPIO_PORTE_DATA_R 0x00 # bit_cycles byte @ [Write GPIO_PORTE_DATA_R 0x20] \<and>
   latched GPIO_PORTE_DATA_R 5 c l (emitted s (shift_out1 byte s)) = [bits_of byte] \<and>
   emitted s (shift_out1_seg byte s) =
     Write GPIO_PORTC_DATA_R 0x00 # bit_cycles byte @ [Write GPIO_PORTC_DATA_R 0x10] \<and>
   latched GPIO_PORTC_DATA_R 4 c l (emitted s (shift_out1_seg byte s)) = [bits_of byte] \<and>
   emitted s (seg_loop_body s) =
     frame_seg 0x66 @ frame_seg 0xF2 @ frame_seg 0xDA @ frame_seg 0x60 @ frame_seg 0xFF @
     [Delay 500] @
     frame_seg 0 @ frame_seg 0 @ frame_seg 0 @ frame_seg 0 @ frame_seg 0 @ [Delay 500] \<and>
   length (latched GPIO_PORTC_DATA_R 4 c l (emitted s (seg_loop_body s))) = 10 \<and>
   emitted s (LCD_command x s) = command_frames (PP2 s) x \<and>
   length (latched GPIO_PORTE_DATA_R 5 c l (emitted s (LCD_command x s))) = 4 \<and>
   emitted s (LCD_putc x s) = data_frames (PP2 s) x \<and>
   length (latched GPIO_PORTE_DATA_R 5 c l (emitted s (LCD_putc x s))) = 4"
proof -
  have a1: "emitted s (shift_out1 byte s) =
     Write GPIO_PORTE_DATA_R 0x00 # bit_cycles byte @ [Write GPIO_PORTE_DATA_R 0x20]"
    by (simp only: emitted_shift_out1 frame_def)
  have a2: "latched GPIO_PORTE_DATA_R 5 c l (emitted s (shift_out1 byte s)) = [bits_of byte]"
    by (simp only: emitted_shift_out1 latched_frame)
  have a3: "emitted s (shift_out1_seg byte s) =
     Write GPIO_PORTC_DATA_R 0x00 # bit_cycles byte @ [Write GPIO_PORTC_DATA_R 0x10]"
    by (simp only: emitted_shift_out1_seg frame_seg_def)
  have a4: "latched GPIO_PORTC_DATA_R 4 c l (emitted s (shift_out1_seg byte s)) = [bits_of byte]"
    by (simp only: emitted_shift_out1_seg latched_frame_seg)
  have a5: "emitted s (seg_loop_body s) =
     frame_seg 0x66 @ frame_seg 0xF2 @ frame_seg 0xDA @ frame_seg 0x60 @ frame_seg 0xFF @
     [Delay 500] @
     frame_seg 0 @ frame_seg 0 @ frame_seg 0 @ frame_seg 0 @ frame_seg 0 @ [Delay 500]"
    by (rule emitted_append [OF seg_loop_body_trace])
  have a6: "length (latched GPIO_PORTC_DATA_R 4 c l (emitted s (seg_loop_body s))) = 10"
    by (simp add: latched_seg_loop_body)
  have a7: "emitted s (LCD_command x s) = command_frames (PP2 s) x"
    by (rule emitted_append [OF LCD_command_trace])
  have a8: "length (latched GPIO_PORTE_DATA_R 5 c l (emitted s (LCD_command x s))) = 4"
    by (simp add: a7 latched_command_frames)
  have a9: "emitted s (LCD_putc x s) = data_frames (PP2 s) x"
    by (rule emitted_append [OF LCD_putc_trace])
  have a10: "length (latched GPIO_PORTE_DATA_R 5 c l (emitted s (LCD_putc x s))) = 4"
    by (simp add: a9 latched_data_frames)
  show ?thesis
    by (intro conjI a1 a2 a3 a4 a5 a6 a7 a8 a9 a10)
qed

text \<open>
  Claim C10: \<open>shift_out1\<close> (in either program) does not preserve the port bits outside
  the DATA, CLOCK and LATCH lines. For every byte and every prior state, a call begins
  by storing \<open>0x00\<close> to the full data register of the latch port and then of the
  data/clock port; after the call the latch port holds exactly the latch bit, and the
  data/clock port holds SCLK and, when bit 7 of the byte is set, SDATA: all other bits of
  both registers are 0.
\<close>

theorem shift_out1_clobbers_ports:
  "take 2 (emitted s (shift_out1 byte s)) =
     [Write GPIO_PORTE_DATA_R 0x00, Write GPIO_PORTF_DATA_R 0x00] \<and>
   regs (shift_out1 byte s) GPIO_PORTE_DATA_R = 0x20 \<and>
   regs (shift_out1 byte s) GPIO_PORTF_DATA_R = (if bit byte 7 then 0x0C else 0x08) \<and>
   regs (shift_out1 byte s) GPIO_PORTE_DATA_R AND NOT 0x20 = 0 \<and>
   regs (shift_out1 byte s) GPIO_PORTF_DATA_R AND NOT 0x0C = 0 \<and>
   take 2 (emitted s (shift_out1_seg byte s)) =
     [Write GPIO_PORTC_DATA_R 0x00, Write GPIO_PORTF_DATA_R 0x00] \<and>
   regs (shift_out1_seg byte s) GPIO_PORTC_DATA_R = 0x10 \<and>
   regs (shift_out1_seg byte s) GPIO_PORTF_DATA_R = (if bit byte 7 then 0x0C else 0x08) \<and>
   regs (shift_out1_seg byte s) GPIO_PORTC_DATA_R AND NOT 0x10 = 0 \<and>
   regs (shift_out1_seg byte s) GPIO_PORTF_DATA_R AND NOT 0x0C = 0"
  by (simp add: emitted_shift_out1 emitted_shift_out1_seg shift_out1_regs shift_out1_seg_regs
      frame_def frame_seg_def bit_cycles_def bit_cycle_def upt_conv_Cons sdata_def)


section \<open>Properties of the LCD driver\<close>

lemma bit5_bytes:
  "bit ((q AND 0x50) OR (n AND 0x0F) OR 0x20 :: u8) 5"
  "\<not> bit ((q AND 0x50) OR (n AND 0x0F) :: u8) 5"
  "bit (((q AND 0x10) OR 0x80) OR (n AND 0x0F) OR 0x20 :: u8) 5"
  "\<not> bit (((q AND 0x10) OR 0x80) OR (n AND 0x0F) :: u8) 5"
  by (simp_all add: bit_simps)

lemma u8_high_bit: "8 \<le> n \<Longrightarrow> \<not> bit (w :: u8) n"
  by (auto dest: bit_imp_le_length)

lemma remap_nibbles:
  "drop_bit 4 (remap x) AND 0x0F = remap (drop_bit 4 x)"
  "remap x AND 0x0F = remap (x AND 0x0F)"
  by (simp_all add: u8_eq_bits bit_simps remap_bits u8_high_bit)

text \<open>
  Claim C4: for every input byte, \<open>LCD_command\<close> and \<open>LCD_putc\<close> each perform exactly two
  \<open>shift_out1\<close> calls per nibble and four per byte, the high nibble of the remapped byte
  before the low nibble, with the EN bit (bit 5) set in the byte of the first call of a
  nibble and clear in the byte of the second call of the same nibble. The nibble sent
  first is the remapped high nibble of the input byte, the one sent second its remapped
  low nibble.
\<close>

theorem LCD_command_putc_framing:
  "(let hi = drop_bit 4 (remap x) AND 0x0F; lo = remap x AND 0x0F;
        q = PP2 s AND 0x50; r = (PP2 s AND 0x10) OR 0x80
    in hi = remap (drop_bit 4 x) \<and> lo = remap (x AND 0x0F) \<and>
       emitted s (LCD_command x s) =
         frame (q OR hi OR 0x20) @ frame (q OR hi) @ frame (q OR lo OR 0x20) @ frame (q OR lo) \<and>
       latched GPIO_PORTE_DATA_R 5 c l (emitted s (LCD_command x s)) =
         [bits_of (q OR hi OR 0x20), bits_of (q OR hi), bits_of (q OR lo OR 0x20), bits_of (q OR lo)] \<and>
       bit (q OR hi OR 0x20) 5 \<and> \<not> bit (q OR hi) 5 \<and> bit (q OR lo OR 0x20) 5 \<and> \<not> bit (q OR lo) 5 \<and>
       emitted s (LCD_putc x s) =
         frame (r OR hi OR 0x20) @ frame (r OR hi) @ frame (r OR lo OR 0x20) @ frame (r OR lo) \<and>
       latched GPIO_PORTE_DATA_R 5 c l (emitted s (LCD_putc x s)) =
         [bits_of (r OR hi OR 0x20), bits_of (r OR hi), bits_of (r OR lo OR 0x20), bits_of (r OR lo)] \<and>
       bit (r OR hi OR 0x20) 5 \<and> \<not> bit (r OR hi) 5 \<and> bit (r OR lo OR 0x20) 5 \<and> \<not> bit (r OR lo) 5)"
proof -
  have c1: "emitted s (LCD_command x s) = command_frames (PP2 s) x"
    by (rule emitted_append [OF LCD_command_trace])
  have d1: "emitted s (LCD_putc x s) = data_frames (PP2 s) x"
    by (rule emitted_append [OF LCD_putc_trace])
  have c2: "command_frames (PP2 s) x =
      frame ((PP2 s AND 0x50) OR (drop_bit 4 (remap x) AND 0x0F) OR 0x20) @
      frame ((PP2 s AND 0x50) OR (drop_bit 4 (remap x) AND 0x0F)) @
      frame ((PP2 s AND 0x50) OR (remap x AND 0x0F) OR 0x20) @
      frame ((PP2 s AND 0x50) OR (remap x AND 0x0F))"
    by (simp add: command_frames_def nibble_frames_def)
  have d2: "data_frames (PP2 s) x =
      frame (((PP2 s AND 0x10) OR 0x80) OR (drop_bit 4 (remap x) AND 0x0F) OR 0x20) @
      frame (((PP2 s AND 0x10) OR 0x80) OR (drop_bit 4 (remap x) AND 0x0F)) @
      frame (((PP2 s AND 0x10) OR 0x80) OR (remap x AND 0x0F) OR 0x20) @
      frame (((PP2 s AND 0x10) OR 0x80) OR (remap x AND 0x0F))"
    by (simp add: data_frames_def nibble_frames_def)
  have c3: "latched GPIO_PORTE_DATA_R 5 c l (emitted s (LCD_command x s)) =
      [bits_of ((PP2 s AND 0x50) OR (drop_bit 4 (remap x) AND 0x0F) OR 0x20),
       bits_of ((PP2 s AND 0x50) OR (drop_bit 4 (remap x) AND 0x0F)),
       bits_of ((PP2 s AND 0x50) OR (remap x AND 0x0F) OR 0x20),
       bits_of ((PP2 s AND 0x50) OR (remap x AND 0x0F))]"
    by (simp only: c1 latched_command_frames list.map)
  have d3: "latched GPIO_PORTE_DATA_R 5 c l (emitted s (LCD_putc x s)) =
      [bits_of (((PP2 s AND 0x10) OR 0x80) OR (drop_bit 4 (remap x) AND 0x0F) OR 0x20),
       bits_of (((PP2 s AND 0x10) OR 0x80) OR (drop_bit 4 (remap x) AND 0x0F)),
       bits_of (((PP2 s AND 0x10) OR 0x80) OR (remap x AND 0x0F) OR 0x20),
       bits_of (((PP2 s AND 0x10) OR 0x80) OR (remap x AND 0x0F))]"
    by (simp only: d1 latched_data_frames list.map)
  show ?thesis
    unfolding Let_def
    by (intro conjI bit5_bytes c3 d3 trans [OF c1 c2] trans [OF d1 d2] remap_nibbles)
qed


lemma before_delay_frame: "before_delay n (frame b @ es) = frame b @ before_delay n es"
  by (simp add: before_delay_def frame_def bit_cycles_def bit_cycle_def upt_conv_Cons)

lemma before_delay_command_frames:
  "before_delay n (command_frames p x @ es) = command_frames p x @ before_delay n es"
  by (simp add: command_frames_def nibble_frames_def before_delay_frame)

lemma before_delay_Delay:
  "before_delay n (Delay k # es) = (if k = n then [] else Delay k # before_delay n es)"
  by (simp add: before_delay_def)

lemma LCD_init_before_settle:
  "before_delay 5 (emitted s (LCD_init s)) = Delay 20 # command_frames (PP2 s) 0x30"
  by (simp add: emitted_append [OF LCD_init_trace] before_delay_Delay before_delay_command_frames)

lemma latched_Delay_Cons:
  "latched lr lb c l (Delay n # es) = latched lr lb c l es"
  by (simp add: latched_def observe_Delay)

lemma latched_LCD_init_reset:
  "latched GPIO_PORTE_DATA_R 5 False False (emitted reset_mcu (LCD_init reset_mcu)) =
     map bits_of
       [0x2C, 0x0C, 0x20, 0x00, 0x2C, 0x0C, 0x20, 0x00, 0x2C, 0x0C, 0x20, 0x00,
        0x24, 0x04, 0x20, 0x00, 0x24, 0x04, 0x21, 0x01, 0x20, 0x00, 0x23, 0x03,
        0x20, 0x00, 0x26, 0x06, 0x20, 0x00, 0x28, 0x08]"
  by (simp add: emitted_append [OF LCD_init_trace] latched_def command_frames_def
      nibble_frames_def observe_frame observe_Delay)
    (simp add: reset_mcu_def remap_def)

text \<open>
  Claim C5 at \<open>LCD_init\<close> run from reset, as \<open>main\<close> runs it. The claim asks for the three
  function-set sends and the switch to 4-bit mode as single raw nibbles, which is the
  power-on sequence of the HD44780 data sheet that the comment of \<open>LCD_init\<close> names. The
  code sends each of them with \<open>LCD_command\<close>, as two nibble transfers: the bytes latched
  for \<open>0x30\<close> are the remapped nibble \<open>0x3\<close> (\<open>0xC\<close>) with EN set and clear and then the
  nibble \<open>0x0\<close> with EN set and clear, three times, and for \<open>0x20\<close> the remapped nibble \<open>0x2\<close>
  (\<open>0x4\<close>) and again the nibble \<open>0x0\<close>. The display is handed the nibbles
  3, 0, 3, 0, 3, 0, 2, 0 where the claim has 3, 3, 3, 2; before the first settle delay
  four bytes are latched, where a raw nibble is two.
\<close>

theorem LCD_init_sends_both_nibbles:
  "take 16 (latched GPIO_PORTE_DATA_R 5 False False (emitted reset_mcu (LCD_init reset_mcu))) =
     [bits_of 0x2C, bits_of 0x0C, bits_of 0x20, bits_of 0x00,
      bits_of 0x2C, bits_of 0x0C, bits_of 0x20, bits_of 0x00,
      bits_of 0x2C, bits_of 0x0C, bits_of 0x20, bits_of 0x00,
      bits_of 0x24, bits_of 0x04, bits_of 0x20, bits_of 0x00] \<and>
   latched GPIO_PORTE_DATA_R 5 False False
     (before_delay 5 (emitted reset_mcu (LCD_init reset_mcu))) =
     [bits_of 0x2C, bits_of 0x0C, bits_of 0x20, bits_of 0x00] \<and>
   length (latched GPIO_PORTE_DATA_R 5 False False
     (before_delay 5 (emitted reset_mcu (LCD_init reset_mcu)))) \<noteq> 2 \<and>
   remap 0x30 = 0xC0 \<and> remap 0x20 = 0x40"
proof -
  have t: "take 16 (latched GPIO_PORTE_DATA_R 5 False False (emitted reset_mcu (LCD_init reset_mcu))) =
     [bits_of 0x2C, bits_of 0x0C, bits_of 0x20, bits_of 0x00,
      bits_of 0x2C, bits_of 0x0C, bits_of 0x20, bits_of 0x00,
      bits_of 0x2C, bits_of 0x0C, bits_of 0x20, bits_of 0x00,
      bits_of 0x24, bits_of 0x04, bits_of 0x20, bits_of 0x00]"
    by (simp add: latched_LCD_init_reset)
  have b: "latched GPIO_PORTE_DATA_R 5 False False
     (before_delay 5 (emitted reset_mcu (LCD_init reset_mcu))) =
     [bits_of 0x2C, bits_of 0x0C, bits_of 0x20, bits_of 0x00]"
    by (simp add: LCD_init_before_settle latched_Delay_Cons latched_command_frames)
      (simp add: reset_mcu_def remap_def)
  have n: "length (latched GPIO_PORTE_DATA_R 5 False False
     (before_delay 5 (emitted reset_mcu (LCD_init reset_mcu)))) \<noteq> 2"
    by (simp add: b)
  have r: "remap 0x30 = 0xC0" "remap 0x20 = 0x40"
    by (simp_all add: remap_def)
  show ?thesis
    by (intro conjI t b n r)
qed

text \<open>The stores of \<open>LCD_init\<close> from any state, in terms of those of \<open>LCD_command\<close>.\<close>

lemma LCD_init_sequence:
  "emitted s (LCD_init s) =
     [Delay 20] @
     emitted s (LCD_command 0x30 s) @ [Delay 5] @
     emitted s (LCD_command 0x30 s) @ [Delay 5] @
     emitted s (LCD_command 0x30 s) @ [Delay 5] @
     emitted s (LCD_command 0x20 s) @ [Delay 5] @
     emitted s (LCD_command 0x28 s) @ [Delay 5] @
     emitted s (LCD_command 0x0C s) @ [Delay 5] @
     emitted s (LCD_command 0x06 s) @ [Delay 5] @
     emitted s (LCD_command 0x01 s) @ [Delay 5] \<and>
   emitted s (LCD_command 0x30 s) =
     nibble_frames (PP2 s AND 0x50) (drop_bit 4 (remap 0x30)) @
     nibble_frames (PP2 s AND 0x50) (remap 0x30) \<and>
   before_delay 5 (emitted s (LCD_init s)) = Delay 20 # emitted s (LCD_command 0x30 s) \<and>
   length (latched GPIO_PORTE_DATA_R 5 c l (before_delay 5 (emitted s (LCD_init s)))) = 4"
proof -
  have e: "\<And>x. emitted s (LCD_command x s) = command_frames (PP2 s) x"
    by (rule emitted_append [OF LCD_command_trace])
  have a1: "emitted s (LCD_init s) =
     [Delay 20] @
     emitted s (LCD_command 0x30 s) @ [Delay 5] @
     emitted s (LCD_command 0x30 s) @ [Delay 5] @
     emitted s (LCD_command 0x30 s) @ [Delay 5] @
     emitted s (LCD_command 0x20 s) @ [Delay 5] @
     emitted s (LCD_command 0x28 s) @ [Delay 5] @
     emitted s (LCD_command 0x0C s) @ [Delay 5] @
     emitted s (LCD_command 0x06 s) @ [Delay 5] @
     emitted s (LCD_command 0x01 s) @ [Delay 5]"
    unfolding e by (rule emitted_append [OF LCD_init_trace])
  have a2: "emitted s (LCD_command 0x30 s) =
     nibble_frames (PP2 s AND 0x50) (drop_bit 4 (remap 0x30)) @
     nibble_frames (PP2 s AND 0x50) (remap 0x30)"
    by (simp only: e command_frames_def)
  have a3: "before_delay 5 (emitted s (LCD_init s)) = Delay 20 # emitted s (LCD_command 0x30 s)"
    by (simp only: e LCD_init_before_settle)
  have a4: "length (latched GPIO_PORTE_DATA_R 5 c l (before_delay 5 (emitted s (LCD_init s)))) = 4"
    by (simp add: LCD_init_before_settle latched_Delay_Cons latched_command_frames)
  show ?thesis
    by (intro conjI a1 a2 a3 a4)
qed








text \<open>
  Claim C9: the RW bit (bit 6, mask \<open>0x40\<close>) of \<open>PP2\<close> is 0 in every reachable state of
  the LCD program, and every byte latched into the shift register on the way to such a
  state has RW = 0.
\<close>

theorem RW_always_clear:
  "lcd_reachable s \<Longrightarrow>
     \<not> bit (PP2 s) 6 \<and>
     (\<forall>bs \<in> set (latched GPIO_PORTE_DATA_R 5 c l (trace s)). \<exists>b. bs = bits_of b \<and> \<not> bit b 6)"
proof -
  assume "lcd_reachable s"
  then have inv: "\<not> bit (PP2 s) 6" "rw_clear_trace (trace s)"
    using lcd_reachable_invariant by blast+
  from inv(2) obtain bytes where
    "\<forall>b \<in> set bytes. \<not> bit b 6"
    "latched GPIO_PORTE_DATA_R 5 c l (trace s) = map bits_of bytes"
    unfolding rw_clear_trace_def latched_def
    by (metis append_Nil monitor.select_convs(3,4))
  with inv(1) show ?thesis by auto
qed

text \<open>The state in which \<open>main\<close> of the LCD program, run from reset, idles.\<close>

theorem RW_always_clear_witness:
  "lcd_reachable (LCD_main reset_mcu) \<and> \<not> bit (PP2 (LCD_main reset_mcu)) 6 \<and>
   set (latched GPIO_PORTE_DATA_R 5 False False (trace (LCD_main reset_mcu)))
     \<subseteq> {bs. \<exists>b. bs = bits_of b \<and> \<not> bit b 6}"
  using RW_always_clear [OF reachable_LCD_main [OF reachable_reset], of False False]
    reachable_LCD_main [OF reachable_reset]
  by blast

end
